theory Spec2Isabelle
  imports Main "HOL-Library.Sublist"
begin

section \<open>JSON bodies and HTTP responses\<close>

text \<open>
  Every handler of the backend answers with \<^verbatim>\<open>res.status(n).json(v)\<close>. A response is
  the status code together with the JSON value that is sent. An object keeps its keys
  in the order the source writes them.
\<close>

datatype json =
    JNull
  | JBool bool
  | JNum int
  | JStr string
  | JArr "json list"
  | JObj "(string \<times> json) list"

record response =
  status :: nat
  body :: json

text \<open>
  An Express handler either sends a response or hands an error to \<^verbatim>\<open>next\<close>. The only
  error-handling middleware of the application is the one at the end of index.js.
\<close>

datatype 'e outcome = Respond response | Next 'e

definition error_handler :: "'e \<Rightarrow> response" where
  "error_handler err = \<lparr>status = 500, body = JObj [(''error'', JStr ''Internal server error.'')]\<rparr>"

definition settle :: "'e outcome \<Rightarrow> response" where
  "settle out = (case out of Respond r \<Rightarrow> r | Next err \<Rightarrow> error_handler err)"

text \<open>The keys that occur anywhere in a JSON value, at any depth.\<close>

fun keys_of :: "json \<Rightarrow> string list" where
  "keys_of (JArr vs) = concat (map keys_of vs)"
| "keys_of (JObj kvs) = concat (map (\<lambda>(k, v). k # keys_of v) kvs)"
| "keys_of _ = []"

text \<open>
  JavaScript truthiness of a request field that is a string when it is present:
  \<^verbatim>\<open>!x\<close> holds when the field is absent (or null) and when it is the empty string.
\<close>

definition falsy :: "string option \<Rightarrow> bool" where
  "falsy x = (case x of None \<Rightarrow> True | Some s \<Rightarrow> s = [])"

text \<open>\<^verbatim>\<open>s.includes(t)\<close>: the string t occurs in s as a contiguous run of characters.\<close>

fun str_includes :: "string \<Rightarrow> string \<Rightarrow> bool" where
  "str_includes [] t = (t = [])"
| "str_includes (c # s) t = (prefix t (c # s) \<or> str_includes s t)"


section \<open>The conversation proxy (index.js)\<close>

subsection \<open>Start-up: the upstream client\<close>

text \<open>
  \<^verbatim>\<open>model\<close> stays undefined when GEMINI_API_KEY is not set (or empty) and when building
  the client throws. The constructor of the SDK is a parameter: it yields a client or
  throws.
\<close>

definition init_model :: "(string \<Rightarrow> 'x + 'm) \<Rightarrow> string option \<Rightarrow> 'm option" where
  "init_model mk apiKey =
     (case apiKey of
        None \<Rightarrow> None
      | Some k \<Rightarrow>
          if k = [] then None
          else (case mk k of Inl err \<Rightarrow> None | Inr m \<Rightarrow> Some m))"

subsection \<open>Requests, history, upstream calls\<close>

text \<open>
  The frontend sends \<^verbatim>\<open>{question, chatHistory: [{role, message}]}\<close>; either field may be
  missing from the body.
\<close>

record turn =
  role :: string
  message :: string

record ask_request =
  question :: "string option"
  chatHistory :: "turn list option"

text \<open>
  An error thrown by the upstream client: \<^verbatim>\<open>error.message\<close> and \<^verbatim>\<open>error.status\<close>, each
  of which may be missing. The status, when there is one, is a number.
\<close>

record js_error =
  err_message :: "string option"
  err_status :: "int option"

text \<open>
  The initialised client, as the handler uses it: \<^verbatim>\<open>startChat({history})\<close>, then
  \<^verbatim>\<open>sendMessage(question)\<close>, then \<^verbatim>\<open>response.text()\<close>. The whole exchange yields the answer
  text or throws.
\<close>

type_synonym upstream = "json list \<Rightarrow> string \<Rightarrow> js_error + string"

text \<open>One entry for every exchange with the upstream service that a handler starts.\<close>

type_synonym upstream_call = "json list \<times> string"

definition gemini_turn :: "turn \<Rightarrow> json" where
  "gemini_turn msg =
     JObj [(''role'', JStr (if role msg = ''bot'' then ''model'' else role msg)),
           (''parts'', JArr [JObj [(''text'', JStr (message msg))]])]"

definition geminiFormattedHistory :: "turn list option \<Rightarrow> json list" where
  "geminiFormattedHistory h = map gemini_turn (case h of None \<Rightarrow> [] | Some ts \<Rightarrow> ts)"

subsection \<open>Classification of upstream failures (the catch block)\<close>

definition ask_catch :: "js_error \<Rightarrow> js_error outcome" where
  "ask_catch error =
     (case err_message error of
        None \<Rightarrow> Next error
      | Some msg \<Rightarrow>
          if msg = [] then Next error
          else if str_includes msg ''API key not valid'' \<or> err_status error = Some 403 then
            Respond \<lparr>status = 401, body = JObj [(''error'',
              JStr ''Invalid API Key or insufficient permissions. Please check your .env file and Google Cloud Console.'')]\<rparr>
          else if str_includes msg ''quota'' \<or> err_status error = Some 429 then
            Respond \<lparr>status = 429, body = JObj [(''error'',
              JStr ''API Quota exceeded. Please check your Google Cloud Console.'')]\<rparr>
          else if str_includes msg ''[GoogleGenerativeAI Error]: Error fetching from''
                  \<or> (case err_status error of None \<Rightarrow> False | Some s \<Rightarrow> s \<ge> 500) then
            Respond \<lparr>status = 502, body = JObj [(''error'',
              JStr (''Failed to communicate with Gemini service: '' @ msg))]\<rparr>
          else
            Respond \<lparr>status = 500, body = JObj [(''error'',
              JStr (''Failed to get answer from Gemini: '' @ msg))]\<rparr>)"

subsection \<open>The handler of POST /api/ask\<close>

text \<open>
  The handler returns what it does with the request and the list of exchanges it
  started with the upstream service.
\<close>

definition ask :: "upstream option \<Rightarrow> ask_request \<Rightarrow> js_error outcome \<times> upstream_call list" where
  "ask model req =
     (case model of
        None \<Rightarrow>
          (Respond \<lparr>status = 503, body = JObj [(''error'',
             JStr ''Gemini service is unavailable due to a configuration error. Please check server logs.'')]\<rparr>, [])
      | Some m \<Rightarrow>
          (case question req of
             None \<Rightarrow> (Respond \<lparr>status = 400, body = JObj [(''error'', JStr ''Question is required'')]\<rparr>, [])
           | Some q \<Rightarrow>
               if q = [] then
                 (Respond \<lparr>status = 400, body = JObj [(''error'', JStr ''Question is required'')]\<rparr>, [])
               else
                 (let h = geminiFormattedHistory (chatHistory req) in
                  (case m h q of
                     Inr text \<Rightarrow> Respond \<lparr>status = 200, body = JObj [(''answer'', JStr text)]\<rparr>
                   | Inl error \<Rightarrow> ask_catch error,
                   [(h, q)]))))"

text \<open>What the client of POST /api/ask receives.\<close>

definition ask_response :: "upstream option \<Rightarrow> ask_request \<Rightarrow> response" where
  "ask_response model req = settle (fst (ask model req))"


section \<open>The authentication controller\<close>

subsection \<open>Collaborators of the controller\<close>

text \<open>
  Errors that the collaborators throw. The controller forwards every one of them to
  \<^verbatim>\<open>next\<close> without looking at it.
\<close>

datatype failure = Conflict | Failure string

text \<open>
  A user document as a query returns it. The password field is part of the document
  only when the query selects it.
\<close>

record user_doc =
  doc_id :: string
  doc_name :: string
  doc_email :: string
  doc_password :: "string option"

text \<open>What \<^verbatim>\<open>res.json\<close> sends for a document.\<close>

definition doc_json :: "user_doc \<Rightarrow> json" where
  "doc_json u =
     JObj ([(''_id'', JStr (doc_id u)), (''name'', JStr (doc_name u)), (''email'', JStr (doc_email u))]
           @ (case doc_password u of None \<Rightarrow> [] | Some p \<Rightarrow> [(''password'', JStr p)]))"

record register_request =
  reg_name :: "string option"
  reg_email :: "string option"
  reg_password :: "string option"

record login_request =
  login_email :: "string option"
  login_password :: "string option"

text \<open>The operations of the User model that a handler starts, in order.\<close>

datatype store_op =
    Create register_request
  | FindOne string
  | MatchPassword string string
  | FindById string

text \<open>
  The User model (models/User) as the controller uses it, over any database state:
  \<^verbatim>\<open>User.create\<close>, \<^verbatim>\<open>User.findOne({email}).select('+password')\<close>, \<^verbatim>\<open>User.findById\<close> and
  the document method \<^verbatim>\<open>matchPassword\<close>. Each of them may throw.
\<close>

record 'db store =
  create :: "register_request \<Rightarrow> 'db \<Rightarrow> (failure + user_doc) \<times> 'db"
  findOne :: "string \<Rightarrow> 'db \<Rightarrow> failure + user_doc option"
  findById :: "string \<Rightarrow> 'db \<Rightarrow> failure + user_doc option"
  matchPassword :: "user_doc \<Rightarrow> string \<Rightarrow> failure + bool"

text \<open>
  \<^verbatim>\<open>jwt.sign(payload, JWT_SECRET, {expiresIn: JWT_EXPIRE})\<close> with the secret and the
  lifetime of the process: the token for a payload, or an error.
\<close>

type_synonym signer = "json \<Rightarrow> failure + string"

subsection \<open>register, login, getMe\<close>

definition session_body :: "string \<Rightarrow> user_doc \<Rightarrow> json" where
  "session_body token user =
     JObj [(''success'', JBool True),
           (''token'', JStr token),
           (''data'', JObj [(''id'', JStr (doc_id user)),
                            (''name'', JStr (doc_name user)),
                            (''email'', JStr (doc_email user))])]"

definition register ::
  "'db store \<Rightarrow> signer \<Rightarrow> register_request \<Rightarrow> 'db \<Rightarrow> (failure outcome \<times> store_op list) \<times> 'db" where
  "register S sign req db =
     (case create S req db of
        (Inl err, db') \<Rightarrow> ((Next err, [Create req]), db')
      | (Inr user, db') \<Rightarrow>
          (case sign (JObj [(''id'', JStr (doc_id user))]) of
             Inl err \<Rightarrow> ((Next err, [Create req]), db')
           | Inr token \<Rightarrow>
               ((Respond \<lparr>status = 201, body = session_body token user\<rparr>, [Create req]), db')))"

definition missing_credentials :: response where
  "missing_credentials =
     \<lparr>status = 400, body = JObj [(''success'', JBool False),
                                 (''error'', JStr ''Please provide email and password'')]\<rparr>"

definition invalid_credentials :: response where
  "invalid_credentials =
     \<lparr>status = 401, body = JObj [(''success'', JBool False),
                                 (''error'', JStr ''Invalid credentials'')]\<rparr>"

definition login ::
  "'db store \<Rightarrow> signer \<Rightarrow> login_request \<Rightarrow> 'db \<Rightarrow> failure outcome \<times> store_op list" where
  "login S sign req db =
     (case login_email req of
        None \<Rightarrow> (Respond missing_credentials, [])
      | Some email \<Rightarrow>
          (case login_password req of
             None \<Rightarrow> (Respond missing_credentials, [])
           | Some password \<Rightarrow>
               if email = [] \<or> password = [] then (Respond missing_credentials, [])
               else
                 (case findOne S email db of
                    Inl err \<Rightarrow> (Next err, [FindOne email])
                  | Inr None \<Rightarrow> (Respond invalid_credentials, [FindOne email])
                  | Inr (Some user) \<Rightarrow>
                      (case matchPassword S user password of
                         Inl err \<Rightarrow> (Next err, [FindOne email, MatchPassword (doc_id user) password])
                       | Inr matches \<Rightarrow>
                           (if \<not> matches then Respond invalid_credentials
                            else (case sign (JObj [(''id'', JStr (doc_id user))]) of
                                    Inl err \<Rightarrow> Next err
                                  | Inr token \<Rightarrow>
                                      Respond \<lparr>status = 200, body = session_body token user\<rparr>),
                            [FindOne email, MatchPassword (doc_id user) password])))))"

text \<open>
  \<^verbatim>\<open>req.user\<close> is whatever the middleware before the handler has attached; reading
  \<^verbatim>\<open>req.user.id\<close> throws inside the try block when nothing is attached.
\<close>

definition getMe ::
  "'db store \<Rightarrow> user_doc option \<Rightarrow> 'db \<Rightarrow> failure outcome \<times> store_op list" where
  "getMe S req_user db =
     (case req_user of
        None \<Rightarrow> (Next (Failure ''TypeError''), [])
      | Some ru \<Rightarrow>
          (case findById S (doc_id ru) db of
             Inl err \<Rightarrow> (Next err, [FindById (doc_id ru)])
           | Inr user \<Rightarrow>
               (Respond \<lparr>status = 200,
                         body = JObj [(''success'', JBool True),
                                      (''data'', (case user of None \<Rightarrow> JNull | Some u \<Rightarrow> doc_json u))]\<rparr>,
                [FindById (doc_id ru)])))"


section \<open>The credential store\<close>

text \<open>
  Modelled from the spec: models/User (the Credential Store) is not among the source
  files. It persists user records with a hashed secret; the email is unique and
  case-normalised; creating a user fails with Conflict when the email is already
  present and then creates nothing; a lookup excludes the secret unless the query asks
  for it; users are never changed or deleted. The hash, its verification, the
  generation of identifiers and the normalisation of emails are parameters.
\<close>

record user =
  user_id :: string
  user_name :: string
  user_email :: string
  user_secret :: string

record store_config =
  hash_secret :: "string \<Rightarrow> string"
  check_secret :: "string \<Rightarrow> string \<Rightarrow> bool"
  next_id :: "user list \<Rightarrow> string"
  normalize :: "string \<Rightarrow> string"

definition public_doc :: "user \<Rightarrow> user_doc" where
  "public_doc u =
     \<lparr>doc_id = user_id u, doc_name = user_name u, doc_email = user_email u, doc_password = None\<rparr>"

definition full_doc :: "user \<Rightarrow> user_doc" where
  "full_doc u =
     \<lparr>doc_id = user_id u, doc_name = user_name u, doc_email = user_email u,
      doc_password = Some (user_secret u)\<rparr>"

definition email_present :: "store_config \<Rightarrow> user list \<Rightarrow> string \<Rightarrow> bool" where
  "email_present cfg db e = (normalize cfg e \<in> set (map user_email db))"

definition mem_create ::
  "store_config \<Rightarrow> register_request \<Rightarrow> user list \<Rightarrow> (failure + user_doc) \<times> user list" where
  "mem_create cfg req db =
     (case (reg_name req, reg_email req, reg_password req) of
        (Some n, Some e, Some p) \<Rightarrow>
          if email_present cfg db e then (Inl Conflict, db)
          else
            (let u = \<lparr>user_id = next_id cfg db, user_name = n, user_email = normalize cfg e,
                      user_secret = hash_secret cfg p\<rparr>
             in (Inr (full_doc u), db @ [u]))
      | _ \<Rightarrow> (Inl (Failure ''ValidationError''), db))"

definition mem_findOne :: "store_config \<Rightarrow> string \<Rightarrow> user list \<Rightarrow> failure + user_doc option" where
  "mem_findOne cfg e db = Inr (map_option full_doc (find (\<lambda>u. user_email u = normalize cfg e) db))"

definition mem_findById :: "string \<Rightarrow> user list \<Rightarrow> failure + user_doc option" where
  "mem_findById i db = Inr (map_option public_doc (find (\<lambda>u. user_id u = i) db))"

definition mem_matchPassword :: "store_config \<Rightarrow> user_doc \<Rightarrow> string \<Rightarrow> failure + bool" where
  "mem_matchPassword cfg d p =
     (case doc_password d of
        None \<Rightarrow> Inl (Failure ''secret not selected'')
      | Some h \<Rightarrow> Inr (check_secret cfg p h))"

definition mem_store :: "store_config \<Rightarrow> (user list) store" where
  "mem_store cfg =
     \<lparr>create = mem_create cfg, findOne = mem_findOne cfg, findById = mem_findById,
      matchPassword = mem_matchPassword cfg\<rparr>"


section \<open>The route GET /api/auth/me\<close>

text \<open>
  Modelled from the spec: Middlewares/Auth (\<^verbatim>\<open>protect\<close>, the gate before getMe in the
  router) is not among the source files. The spec's identify verifies the bearer
  token; on success it looks the user up by the subject id of the token; it fails
  with Unauthenticated when the token is invalid (or missing) and with NotFound when
  the subject no longer resolves to a user; it exposes the resolved user to the
  handler behind it. A failure of the store goes to the top-level handler. Token
  verification (signature, expiry, structure) is a parameter.
\<close>

datatype auth_failure = Unauthenticated | NotFound

type_synonym verifier = "string \<Rightarrow> string option"

datatype gate = Reject auth_failure | Forward failure | Pass user_doc

definition protect :: "'db store \<Rightarrow> verifier \<Rightarrow> string option \<Rightarrow> 'db \<Rightarrow> gate \<times> store_op list" where
  "protect S verify bearer db =
     (case bearer of
        None \<Rightarrow> (Reject Unauthenticated, [])
      | Some token \<Rightarrow>
          (case verify token of
             None \<Rightarrow> (Reject Unauthenticated, [])
           | Some subject \<Rightarrow>
               (case findById S subject db of
                  Inl err \<Rightarrow> Forward err
                | Inr None \<Rightarrow> Reject NotFound
                | Inr (Some u) \<Rightarrow> Pass u,
                [FindById subject])))"

text \<open>
  Modelled from the spec: the HTTP status that the error taxonomy of the spec gives
  to a failure of the gate. It names 401 for Unauthenticated and no number for
  NotFound.
\<close>

definition failure_status :: "auth_failure \<Rightarrow> nat option" where
  "failure_status k = (case k of Unauthenticated \<Rightarrow> Some 401 | NotFound \<Rightarrow> None)"

datatype me_result = Denied auth_failure | Handled "failure outcome"

text \<open>\<^verbatim>\<open>router.get('/me', protect, getMe)\<close>: the handler runs only when the gate lets the request pass.\<close>

definition me_route ::
  "'db store \<Rightarrow> verifier \<Rightarrow> string option \<Rightarrow> 'db \<Rightarrow> me_result \<times> store_op list" where
  "me_route S verify bearer db =
     (case protect S verify bearer db of
        (Reject k, ops) \<Rightarrow> (Denied k, ops)
      | (Forward err, ops) \<Rightarrow> (Handled (Next err), ops)
      | (Pass u, ops) \<Rightarrow>
          (case getMe S (Some u) db of (out, ops') \<Rightarrow> (Handled out, ops @ ops')))"


section \<open>Vocabulary of the properties\<close>

subsection \<open>Kinds of upstream failure\<close>

text \<open>
  The failure carries a message (\<^verbatim>\<open>error.message\<close> is truthy); it is
  unauthenticated-style (the upstream rejects the API key, or status 403),
  quota-exceeded-style (the message mentions the quota, or status 429), or tells that
  the upstream is unreachable (a fetch failure, or a status of 500 and above).
\<close>

definition carries_message :: "js_error \<Rightarrow> bool" where
  "carries_message e = (case err_message e of None \<Rightarrow> False | Some msg \<Rightarrow> msg \<noteq> [])"

definition message_includes :: "js_error \<Rightarrow> string \<Rightarrow> bool" where
  "message_includes e t = (case err_message e of None \<Rightarrow> False | Some msg \<Rightarrow> str_includes msg t)"

definition unauthenticated_style :: "js_error \<Rightarrow> bool" where
  "unauthenticated_style e = (message_includes e ''API key not valid'' \<or> err_status e = Some 403)"

definition quota_exceeded_style :: "js_error \<Rightarrow> bool" where
  "quota_exceeded_style e = (message_includes e ''quota'' \<or> err_status e = Some 429)"

definition unreachable_style :: "js_error \<Rightarrow> bool" where
  "unreachable_style e =
     (message_includes e ''[GoogleGenerativeAI Error]: Error fetching from''
      \<or> (case err_status e of None \<Rightarrow> False | Some s \<Rightarrow> s \<ge> 500))"

subsection \<open>Stub collaborators for concrete runs\<close>

text \<open>An upstream that raises a given error, and one that answers with a given text.\<close>

definition stub_raising :: "js_error \<Rightarrow> upstream" where
  "stub_raising e h q = Inl e"

definition stub_answering :: "string \<Rightarrow> upstream" where
  "stub_answering t h q = Inr t"

text \<open>An SDK constructor that always throws, and one that yields a given client.\<close>

definition sdk_failing :: "string \<Rightarrow> string + upstream" where
  "sdk_failing k = Inl ''invalid configuration''"

definition sdk_yielding :: "upstream \<Rightarrow> string \<Rightarrow> string + upstream" where
  "sdk_yielding m k = Inr m"

text \<open>A signer that tags the subject of the payload, and a verifier that reads the tag back.\<close>

definition tag_signer :: signer where
  "tag_signer payload =
     (case payload of
        JObj [(k, JStr subject)] \<Rightarrow> if k = ''id'' then Inr (''jwt:'' @ subject) else Inl (Failure ''payload'')
      | _ \<Rightarrow> Inl (Failure ''payload''))"

definition tag_verifier :: verifier where
  "tag_verifier token = (if prefix ''jwt:'' token then Some (drop 4 token) else None)"

text \<open>A store configuration with a toy hash; emails are kept as they are written.\<close>

definition plain_config :: store_config where
  "plain_config =
     \<lparr>hash_secret = (\<lambda>p. CHR ''#'' # p),
      check_secret = (\<lambda>p h. h = CHR ''#'' # p),
      next_id = (\<lambda>db. CHR ''u'' # replicate (length db) CHR ''i''),
      normalize = (\<lambda>e. e)\<rparr>"

definition ana :: user where
  "ana = \<lparr>user_id = ''u'', user_name = ''Ana'', user_email = ''a@x.com'', user_secret = ''#secret123''\<rparr>"

subsection \<open>Concrete requests and failures\<close>

definition quota_forbidden :: js_error where
  "quota_forbidden = \<lparr>err_message = Some ''Quota exceeded for quota metric'', err_status = Some 403\<rparr>"

definition quota_exhausted :: js_error where
  "quota_exhausted =
     \<lparr>err_message = Some ''Resource has been exhausted (e.g. check quota).'', err_status = Some 429\<rparr>"

definition greeting :: ask_request where
  "greeting = \<lparr>question = Some ''hi'', chatHistory = None\<rparr>"

definition sample_history :: "turn list" where
  "sample_history = [\<lparr>role = ''user'', message = ''hi''\<rparr>, \<lparr>role = ''bot'', message = ''hello''\<rparr>]"

text \<open>The history with the role names that the spec uses for its turns.\<close>

definition named_history :: "turn list" where
  "named_history =
     [\<lparr>role = ''human'', message = ''hi''\<rparr>, \<lparr>role = ''assistant'', message = ''hello''\<rparr>]"

definition duplicate_signup :: register_request where
  "duplicate_signup = \<lparr>reg_name = Some ''Bob'', reg_email = Some ''a@x.com'', reg_password = Some ''hunter22''\<rparr>"

definition fresh_signup :: register_request where
  "fresh_signup = \<lparr>reg_name = Some ''Bob'', reg_email = Some ''b@x.com'', reg_password = Some ''hunter22''\<rparr>"

definition ghost_login :: "string \<Rightarrow> login_request" where
  "ghost_login password = \<lparr>login_email = Some ''ghost@x.com'', login_password = Some password\<rparr>"

definition ana_login :: "string \<Rightarrow> login_request" where
  "ana_login password = \<lparr>login_email = Some ''a@x.com'', login_password = Some password\<rparr>"


section \<open>Properties of the conversation proxy\<close>

text \<open>
  The search is the one of the library: t occurs in s exactly when t is a contiguous
  sublist of s.
\<close>

lemma str_includes_sublist: "str_includes s t \<longleftrightarrow> sublist t s"
  by (induction s) (auto simp: sublist_Cons_right)

text \<open>
  The reply of the 429 branch spells the word with a capital Q: a search for
  \<^verbatim>\<open>Quota\<close> succeeds on it, the case-sensitive search for
  \<^verbatim>\<open>quota\<close> does not.
\<close>

lemma quota_reply_spelling:
  "str_includes ''API Quota exceeded. Please check your Google Cloud Console.'' ''Quota''
   \<and> \<not> str_includes ''API Quota exceeded. Please check your Google Cloud Console.'' ''quota''"
  by simp

text \<open>
  The catch block on an error that carries a message: the handler answers itself, and the
  status follows the order of the tests.
\<close>

lemma ask_catch_status:
  assumes "carries_message e"
  shows "ask_catch e = Respond (settle (ask_catch e))
    \<and> status (settle (ask_catch e)) =
        (if unauthenticated_style e then 401
         else if quota_exceeded_style e then 429
         else if unreachable_style e then 502 else 500)"
  using assms
  by (auto simp: carries_message_def ask_catch_def settle_def unauthenticated_style_def
      quota_exceeded_style_def unreachable_style_def message_includes_def split: option.splits)

text \<open>
  The body of the 429 branch.
\<close>

lemma ask_catch_quota_body:
  assumes "carries_message e" and "\<not> unauthenticated_style e" and "quota_exceeded_style e"
  shows "body (settle (ask_catch e)) =
    JObj [(''error'', JStr ''API Quota exceeded. Please check your Google Cloud Console.'')]"
  using assms
  by (auto simp: carries_message_def ask_catch_def settle_def unauthenticated_style_def
      quota_exceeded_style_def message_includes_def split: option.splits)

text \<open>
  When the upstream exchange throws, the handler has started exactly that one exchange and
  continues in the catch block.
\<close>

lemma ask_upstream_error:
  assumes "question req = Some q" and "q \<noteq> []"
    and "m (geminiFormattedHistory (chatHistory req)) q = Inl e"
  shows "ask (Some m) req = (ask_catch e, [(geminiFormattedHistory (chatHistory req), q)])"
  using assms by (simp add: ask_def Let_def)

text \<open>
  Claim C1, as amended. An upstream failure raised during the ask pipeline that carries a
  message is classified by the handler in the order of its tests, and the handler sends the
  response itself: 401 when the failure is unauthenticated-style (the message contains
  \<^verbatim>\<open>API key not valid\<close>, or status 403); otherwise 429 when it is
  quota-exceeded-style (the message contains \<^verbatim>\<open>quota\<close>, or status
  429), and then the body is the fixed message \<^verbatim>\<open>API Quota exceeded.
  Please check your Google Cloud Console.\<close>; otherwise 502 when the upstream is
  unreachable (fetch-failure message, or status of 500 and above); otherwise 500.
\<close>

theorem ask_classifies_upstream_failure:
  assumes "question req = Some q" and "q \<noteq> []"
    and "m (geminiFormattedHistory (chatHistory req)) q = Inl e"
    and "carries_message e"
  shows "fst (ask (Some m) req) = Respond (ask_response (Some m) req)
    \<and> status (ask_response (Some m) req) =
        (if unauthenticated_style e then 401
         else if quota_exceeded_style e then 429
         else if unreachable_style e then 502 else 500)
    \<and> (\<not> unauthenticated_style e \<and> quota_exceeded_style e \<longrightarrow>
         body (ask_response (Some m) req) =
           JObj [(''error'', JStr ''API Quota exceeded. Please check your Google Cloud Console.'')])"
proof -
  have run: "fst (ask (Some m) req) = ask_catch e"
    using ask_upstream_error [of req q m e] assms(1-3) by simp
  then have resp: "ask_response (Some m) req = settle (ask_catch e)"
    by (simp add: ask_response_def)
  show ?thesis
    using ask_catch_status [OF assms(4)] ask_catch_quota_body [of e] assms(4)
    by (simp add: run resp)
qed

text \<open>
  Claim C1, witness: the upstream raises a quota failure with status 429 on a question
  without history; the proxy answers 429 with the fixed quota message.
\<close>

theorem ask_classifies_upstream_failure_witness:
  "question greeting = Some ''hi'' \<and> carries_message quota_exhausted
   \<and> quota_exceeded_style quota_exhausted \<and> \<not> unauthenticated_style quota_exhausted
   \<and> ask_response (Some (stub_raising quota_exhausted)) greeting =
       \<lparr>status = 429,
        body = JObj [(''error'', JStr ''API Quota exceeded. Please check your Google Cloud Console.'')]\<rparr>"
proof -
  have q: "question greeting = Some ''hi''" by (simp add: greeting_def)
  have ne: "''hi'' \<noteq> []" by simp
  have up: "stub_raising quota_exhausted (geminiFormattedHistory (chatHistory greeting)) ''hi'' = Inl quota_exhausted"
    by (simp add: stub_raising_def)
  have cm: "carries_message quota_exhausted"
    by (simp add: carries_message_def quota_exhausted_def)
  have qs: "quota_exceeded_style quota_exhausted"
    by (simp add: quota_exceeded_style_def quota_exhausted_def)
  have nu: "\<not> unauthenticated_style quota_exhausted"
    by (simp add: unauthenticated_style_def message_includes_def quota_exhausted_def)
  from ask_classifies_upstream_failure [of greeting "''hi''" "stub_raising quota_exhausted" quota_exhausted]
    q ne up cm qs nu
  have "status (ask_response (Some (stub_raising quota_exhausted)) greeting) = 429
     \<and> body (ask_response (Some (stub_raising quota_exhausted)) greeting) =
           JObj [(''error'', JStr ''API Quota exceeded. Please check your Google Cloud Console.'')]"
    by simp
  then have "ask_response (Some (stub_raising quota_exhausted)) greeting =
       \<lparr>status = 429,
        body = JObj [(''error'', JStr ''API Quota exceeded. Please check your Google Cloud Console.'')]\<rparr>"
    by (cases "ask_response (Some (stub_raising quota_exhausted)) greeting") simp
  with q cm qs nu show ?thesis by simp
qed

text \<open>
  Claim C1, counterexample to the claim as first stated: a failure with status 403 whose
  message mentions the quota carries a message and is quota-exceeded-style, yet the proxy
  answers 401 and not 429, because the test for 403 comes first.
\<close>

theorem quota_style_failure_answered_401:
  "carries_message quota_forbidden \<and> quota_exceeded_style quota_forbidden
   \<and> status (ask_response (Some (stub_raising quota_forbidden)) greeting) = 401
   \<and> status (ask_response (Some (stub_raising quota_forbidden)) greeting) \<noteq> 429"
  by (simp add: carries_message_def quota_exceeded_style_def message_includes_def ask_response_def
      ask_def stub_raising_def ask_catch_def settle_def geminiFormattedHistory_def
      quota_forbidden_def greeting_def)

text \<open>
  Claim C3, as amended. Reshaping a client-supplied history yields a list of the same
  length; the turn at every position i is the reshaped i-th turn of the client: its text is
  wrapped unchanged into \<^verbatim>\<open>{parts: [{text}]}\<close>, the role
  \<^verbatim>\<open>bot\<close>, which is the name of the assistant's role on the wire,
  becomes \<^verbatim>\<open>model\<close>, and every other role, the name
  \<^verbatim>\<open>assistant\<close> among them, is kept as it is. So no turn is
  reordered, dropped or deduplicated.
\<close>

theorem history_reshaped_in_order:
  "length (geminiFormattedHistory (Some h)) = length h
   \<and> (\<forall>i < length h.
        geminiFormattedHistory (Some h) ! i =
          JObj [(''role'', JStr (if role (h ! i) = ''bot'' then ''model'' else role (h ! i))),
                (''parts'', JArr [JObj [(''text'', JStr (message (h ! i)))]])])"
  by (simp add: geminiFormattedHistory_def gemini_turn_def)

text \<open>
  Claim C3, witness: the history of a user turn (hi) and a bot turn (hello).
\<close>

theorem history_reshaped_in_order_witness:
  "length (geminiFormattedHistory (Some sample_history)) = 2
   \<and> geminiFormattedHistory (Some sample_history) ! 0 =
       JObj [(''role'', JStr ''user''), (''parts'', JArr [JObj [(''text'', JStr ''hi'')]])]
   \<and> geminiFormattedHistory (Some sample_history) ! 1 =
       JObj [(''role'', JStr ''model''), (''parts'', JArr [JObj [(''text'', JStr ''hello'')]])]"
  using history_reshaped_in_order [of sample_history]
  by (simp add: sample_history_def)

text \<open>
  Claim C3, counterexample to the claim as first stated: in the history of a human turn
  (hi) and an assistant turn (hello), the turn whose role is named
  \<^verbatim>\<open>assistant\<close> is forwarded with that role and not with the role
  \<^verbatim>\<open>model\<close>; only the name \<^verbatim>\<open>bot\<close> is mapped.
\<close>

theorem assistant_role_forwarded_unmapped:
  "role (named_history ! 1) = ''assistant''
   \<and> geminiFormattedHistory (Some named_history) ! 1 =
       JObj [(''role'', JStr ''assistant''), (''parts'', JArr [JObj [(''text'', JStr ''hello'')]])]
   \<and> geminiFormattedHistory (Some named_history) ! 1 \<noteq>
       JObj [(''role'', JStr ''model''), (''parts'', JArr [JObj [(''text'', JStr ''hello'')]])]"
  by (simp add: named_history_def geminiFormattedHistory_def gemini_turn_def)

text \<open>
  Claim C4, counterexample to the claim as first stated: with the upstream client not
  initialised, an empty question is answered 503, not 400; the check of the client comes
  before the check of the question.
\<close>

theorem empty_question_unconfigured_503:
  "falsy (question \<lparr>question = Some [], chatHistory = None\<rparr>)
   \<and> status (ask_response None \<lparr>question = Some [], chatHistory = None\<rparr>) = 503
   \<and> status (ask_response None \<lparr>question = Some [], chatHistory = None\<rparr>) \<noteq> 400"
  by (simp add: falsy_def ask_response_def ask_def settle_def)

text \<open>
  Claim C4, as amended. For every call to ask with an empty or absent question no upstream
  call is attempted; when the upstream client is initialised the response is HTTP 400 with
  the message \<^verbatim>\<open>Question is required\<close>; when it is not, the response
  is HTTP 503.
\<close>

theorem empty_question_rejected:
  assumes "falsy (question req)"
  shows "snd (ask model req) = []
    \<and> (\<forall>m. model = Some m \<longrightarrow>
          fst (ask model req) =
            Respond \<lparr>status = 400, body = JObj [(''error'', JStr ''Question is required'')]\<rparr>)
    \<and> (model = None \<longrightarrow> status (ask_response model req) = 503)"
  using assms
  by (auto simp: falsy_def ask_def ask_response_def settle_def split: option.splits)

text \<open>
  Claim C4, witness: an absent question with a history, on an initialised client: 400 and
  no upstream call.
\<close>

theorem empty_question_rejected_witness:
  "falsy (question \<lparr>question = None, chatHistory = Some sample_history\<rparr>)
   \<and> ask (Some (stub_answering ''fine'')) \<lparr>question = None, chatHistory = Some sample_history\<rparr> =
       (Respond \<lparr>status = 400, body = JObj [(''error'', JStr ''Question is required'')]\<rparr>, [])"
proof -
  have f: "falsy (question \<lparr>question = None, chatHistory = Some sample_history\<rparr>)"
    by (simp add: falsy_def)
  from empty_question_rejected [OF f, of "Some (stub_answering ''fine'')"] f
  show ?thesis by (simp add: prod_eq_iff)
qed

text \<open>
  Claim C5. If the upstream API key is absent (or empty) or the upstream client fails to
  initialise at start-up, every call to /api/ask is answered HTTP 503 and no exchange with
  the upstream service is started.
\<close>

theorem unconfigured_always_503:
  assumes "falsy apiKey \<or> (\<exists>k err. apiKey = Some k \<and> mk k = Inl err)"
  shows "ask (init_model mk apiKey) req =
    (Respond \<lparr>status = 503, body = JObj [(''error'',
       JStr ''Gemini service is unavailable due to a configuration error. Please check server logs.'')]\<rparr>, [])"
  using assms
  by (auto simp: falsy_def init_model_def ask_def split: option.splits)

text \<open>
  Claim C5, witness: a start-up without API key, and a start-up whose client constructor
  throws.
\<close>

theorem unconfigured_always_503_witness:
  "falsy None
   \<and> ask (init_model (sdk_yielding (stub_answering ''fine'')) None) greeting =
       (Respond \<lparr>status = 503, body = JObj [(''error'',
          JStr ''Gemini service is unavailable due to a configuration error. Please check server logs.'')]\<rparr>, [])
   \<and> sdk_failing ''key'' = Inl ''invalid configuration''
   \<and> ask (init_model sdk_failing (Some ''key'')) greeting =
       (Respond \<lparr>status = 503, body = JObj [(''error'',
          JStr ''Gemini service is unavailable due to a configuration error. Please check server logs.'')]\<rparr>, [])"
proof -
  have a: "falsy None" by (simp add: falsy_def)
  have b: "sdk_failing ''key'' = Inl ''invalid configuration''" by (simp add: sdk_failing_def)
  have a': "falsy None \<or> (\<exists>k err. None = Some k \<and> sdk_yielding (stub_answering ''fine'') k = Inl err)"
    using a by simp
  have b': "falsy (Some ''key'') \<or> (\<exists>k err. Some ''key'' = Some k \<and> sdk_failing k = Inl err)"
    using b by simp
  show ?thesis
    using unconfigured_always_503 [OF a', of greeting] unconfigured_always_503 [OF b', of greeting] a b
    by simp
qed

text \<open>
  Claim C10, counterexample to the claim as first stated: with the upstream client not
  initialised, a non-empty question without history is answered 503 and no upstream call is
  made.
\<close>

theorem absent_history_unconfigured_503:
  "question greeting = Some ''hi'' \<and> chatHistory greeting = None
   \<and> ask None greeting =
       (Respond \<lparr>status = 503, body = JObj [(''error'',
          JStr ''Gemini service is unavailable due to a configuration error. Please check server logs.'')]\<rparr>, [])"
  by (simp add: greeting_def ask_def)

text \<open>
  Claim C10, as amended. When the upstream client is initialised and the question is not
  empty, a request whose chatHistory is absent (or null) is handled exactly as the same
  request with an empty history: one upstream call is made, with an empty history and the
  question alone; the response is the answer of that call (200) or the classification of
  its failure, never a 400. When the client is not initialised the request is answered as
  it is with an empty history as well (503).
\<close>

theorem absent_history_is_empty_history:
  assumes "question req = Some q" and "q \<noteq> []" and "chatHistory req = None"
  shows "ask (Some m) req = ask (Some m) (req\<lparr>chatHistory := Some []\<rparr>)
    \<and> snd (ask (Some m) req) = [([], q)]
    \<and> fst (ask (Some m) req) =
        (case m [] q of
           Inr answer \<Rightarrow> Respond \<lparr>status = 200, body = JObj [(''answer'', JStr answer)]\<rparr>
         | Inl e \<Rightarrow> ask_catch e)
    \<and> status (ask_response (Some m) req) \<noteq> 400
    \<and> ask None req = ask None (req\<lparr>chatHistory := Some []\<rparr>)"
  using assms
  by (cases "m [] q")
     (auto simp: ask_def ask_response_def settle_def geminiFormattedHistory_def ask_catch_def
        error_handler_def split: option.splits)

text \<open>
  Claim C10, witness: the question hi without history, on a client that answers: 200 with
  the answer, after one call with an empty history.
\<close>

theorem absent_history_is_empty_history_witness:
  "question greeting = Some ''hi'' \<and> chatHistory greeting = None
   \<and> ask (Some (stub_answering ''fine'')) greeting =
       (Respond \<lparr>status = 200, body = JObj [(''answer'', JStr ''fine'')]\<rparr>, [([], ''hi'')])"
proof -
  have q: "question greeting = Some ''hi''" and h: "chatHistory greeting = None"
    by (simp_all add: greeting_def)
  have ne: "''hi'' \<noteq> []" by simp
  from absent_history_is_empty_history [of greeting "''hi''" "stub_answering ''fine''"] q ne h
  have calls: "snd (ask (Some (stub_answering ''fine'')) greeting) = [([], ''hi'')]"
    and out: "fst (ask (Some (stub_answering ''fine'')) greeting) =
        (case stub_answering ''fine'' [] ''hi'' of
           Inr answer \<Rightarrow> Respond \<lparr>status = 200, body = JObj [(''answer'', JStr answer)]\<rparr>
         | Inl e \<Rightarrow> ask_catch e)"
    by blast+
  show ?thesis
    using q h calls out by (simp add: prod_eq_iff stub_answering_def)
qed


section \<open>Properties of the authentication routes\<close>

text \<open>
  The keys of the body that register and login send on success.
\<close>

lemma keys_of_session_body: "set (keys_of (session_body token user)) = {''success'', ''token'', ''data'', ''id'', ''name'', ''email''}"
  by (auto simp: session_body_def)

text \<open>
  The only key of the body of the top-level error handler.
\<close>

lemma keys_of_error_handler: "keys_of (body (error_handler err)) = [''error'']"
  by (simp add: error_handler_def)

text \<open>
  No response of register, sent by the handler or by the top-level error handler, has a
  password key.
\<close>

lemma register_no_password:
  "''password'' \<notin> set (keys_of (body (settle (fst (fst (register S sign req db))))))"
  by (auto simp: register_def settle_def keys_of_session_body keys_of_error_handler
      split: prod.splits sum.splits)

text \<open>
  No response of login has a password key.
\<close>

lemma login_no_password:
  "''password'' \<notin> set (keys_of (body (settle (fst (login S sign req db)))))"
  by (auto simp: login_def settle_def keys_of_session_body keys_of_error_handler
      missing_credentials_def invalid_credentials_def
      split: option.splits sum.splits)

text \<open>
  A lookup by identifier in the modelled store returns the public document of the first
  user with that identifier.
\<close>

lemma mem_findById_public:
  "findById (mem_store cfg) i db = Inr (map_option public_doc (find (\<lambda>u. user_id u = i) db))"
  by (simp add: mem_store_def mem_findById_def)

text \<open>
  The keys of a public document.
\<close>

lemma keys_of_public_doc: "keys_of (doc_json (public_doc u)) = [''_id'', ''name'', ''email'']"
  by (simp add: doc_json_def public_doc_def)

text \<open>
  With the modelled store, whose lookups by identifier leave the secret out, no response of
  getMe has a password key.
\<close>

lemma getMe_mem_no_password:
  "''password'' \<notin> set (keys_of (body (settle (fst (getMe (mem_store cfg) ru db)))))"
  by (auto simp: getMe_def settle_def mem_findById_public keys_of_error_handler keys_of_public_doc
      split: option.splits)

text \<open>
  getMe sends the password exactly when the lookup of the store selects it: when the lookup
  leaves the secret out, the response has no password key.
\<close>

lemma getMe_no_password:
  assumes "\<forall>ru d. req_user = Some ru \<and> findById S (doc_id ru) db = Inr (Some d) \<longrightarrow> doc_password d = None"
  shows "''password'' \<notin> set (keys_of (body (settle (fst (getMe S req_user db)))))"
proof (cases req_user)
  case None
  then show ?thesis by (simp add: getMe_def settle_def keys_of_error_handler)
next
  case (Some ru)
  show ?thesis
  proof (cases "findById S (doc_id ru) db")
    case (Inl err)
    with Some show ?thesis by (simp add: getMe_def settle_def keys_of_error_handler)
  next
    case (Inr found)
    show ?thesis
    proof (cases found)
      case None
      with Some Inr show ?thesis by (simp add: getMe_def settle_def)
    next
      case (Some d)
      with assms \<open>req_user = Some ru\<close> Inr have "doc_password d = None" by blast
      with Some Inr \<open>req_user = Some ru\<close> show ?thesis
        by (simp add: getMe_def settle_def doc_json_def)
    qed
  qed
qed

text \<open>
  Whatever error the creation of the user throws, register forwards it to the top-level
  error handler, which answers 500.
\<close>

lemma register_forwards_store_failure:
  assumes "create S req db = (Inl err, db')"
  shows "register S sign req db = ((Next err, [Create req]), db')
    \<and> settle (Next err :: failure outcome) =
        \<lparr>status = 500, body = JObj [(''error'', JStr ''Internal server error.'')]\<rparr>"
  using assms by (simp add: register_def settle_def error_handler_def)

text \<open>
  getMe on its own, when the identifier it is given resolves to no user: it answers 200
  with null data. A failure with NotFound can only come from the gate before it.
\<close>

lemma getMe_unresolved_subject:
  assumes "findById S (doc_id ru) db = Inr None"
  shows "getMe S (Some ru) db =
    (Respond \<lparr>status = 200, body = JObj [(''success'', JBool True), (''data'', JNull)]\<rparr>,
     [FindById (doc_id ru)])"
  using assms by (simp add: getMe_def)

text \<open>
  getMe on its own sends the document it gets: a store whose lookup by identifier selects
  the secret makes it part of the response.
\<close>

lemma getMe_selected_secret_is_sent:
  assumes "findById S (doc_id ru) db = Inr (Some u)" and "doc_password u = Some h"
  shows "''password'' \<in> set (keys_of (body (settle (fst (getMe S (Some ru) db)))))"
  using assms by (simp add: getMe_def settle_def doc_json_def)

text \<open>
  Claim C2, counterexample to the claim as first stated: the email is unknown to the store
  and the password is the empty string; login answers 400 with \<^verbatim>\<open>Please
  provide email and password\<close>, not 401.
\<close>

theorem unknown_email_empty_password_400:
  "findOne (mem_store plain_config) ''ghost@x.com'' [ana] = Inr None
   \<and> login (mem_store plain_config) tag_signer (ghost_login []) [ana] =
       (Respond \<lparr>status = 400, body = JObj [(''success'', JBool False),
                    (''error'', JStr ''Please provide email and password'')]\<rparr>, [])"
  by (simp add: mem_store_def mem_findOne_def plain_config_def ana_def login_def ghost_login_def
      missing_credentials_def)

text \<open>
  Claim C2, as amended. For all pairs of a non-empty email and a non-empty password where
  the email is unknown to the store or the password fails secret verification, login
  returns the same response in both cases: status 401 with the exact message
  \<^verbatim>\<open>Invalid credentials\<close>.
\<close>

theorem login_failures_indistinguishable:
  assumes "login_email req = Some email" and "email \<noteq> []"
    and "login_password req = Some password" and "password \<noteq> []"
    and "findOne S email db = Inr None
         \<or> (\<exists>u. findOne S email db = Inr (Some u) \<and> matchPassword S u password = Inr False)"
  shows "fst (login S sign req db) =
    Respond \<lparr>status = 401, body = JObj [(''success'', JBool False),
                                        (''error'', JStr ''Invalid credentials'')]\<rparr>"
  using assms by (auto simp: login_def invalid_credentials_def)

text \<open>
  Claim C2, witness: an unknown email, and a known email with a wrong password, both with
  the password guess: the two responses are the same 401.
\<close>

theorem login_failures_indistinguishable_witness:
  "findOne (mem_store plain_config) ''ghost@x.com'' [ana] = Inr None
   \<and> findOne (mem_store plain_config) ''a@x.com'' [ana] = Inr (Some (full_doc ana))
   \<and> matchPassword (mem_store plain_config) (full_doc ana) ''guess'' = Inr False
   \<and> fst (login (mem_store plain_config) tag_signer (ghost_login ''guess'') [ana]) =
       Respond \<lparr>status = 401, body = JObj [(''success'', JBool False),
                                           (''error'', JStr ''Invalid credentials'')]\<rparr>
   \<and> fst (login (mem_store plain_config) tag_signer (ana_login ''guess'') [ana]) =
       fst (login (mem_store plain_config) tag_signer (ghost_login ''guess'') [ana])"
proof -
  have g: "findOne (mem_store plain_config) ''ghost@x.com'' [ana] = Inr None"
    by (simp add: mem_store_def mem_findOne_def plain_config_def ana_def)
  have a: "findOne (mem_store plain_config) ''a@x.com'' [ana] = Inr (Some (full_doc ana))"
    by (simp add: mem_store_def mem_findOne_def plain_config_def ana_def)
  have m: "matchPassword (mem_store plain_config) (full_doc ana) ''guess'' = Inr False"
    by (simp add: mem_store_def mem_matchPassword_def plain_config_def ana_def full_doc_def)
  have r1: "fst (login (mem_store plain_config) tag_signer (ghost_login ''guess'') [ana]) =
       Respond \<lparr>status = 401, body = JObj [(''success'', JBool False),
                                           (''error'', JStr ''Invalid credentials'')]\<rparr>"
    using login_failures_indistinguishable
      [of "ghost_login ''guess''" "''ghost@x.com''" "''guess''" "mem_store plain_config" "[ana]" tag_signer] g
    by (simp add: ghost_login_def)
  have r2: "fst (login (mem_store plain_config) tag_signer (ana_login ''guess'') [ana]) =
       Respond \<lparr>status = 401, body = JObj [(''success'', JBool False),
                                           (''error'', JStr ''Invalid credentials'')]\<rparr>"
    using login_failures_indistinguishable
      [of "ana_login ''guess''" "''a@x.com''" "''guess''" "mem_store plain_config" "[ana]" tag_signer] a m
    by (simp add: ana_login_def)
  show ?thesis using g a m r1 r2 by simp
qed

text \<open>
  Claim C6. For every login request in which email or password is absent (or empty), login
  returns HTTP 400 with the message \<^verbatim>\<open>Please provide email and
  password\<close>, and it has started no operation of the Credential Store.
\<close>

theorem login_missing_field_400:
  assumes "falsy (login_email req) \<or> falsy (login_password req)"
  shows "login S sign req db =
    (Respond \<lparr>status = 400, body = JObj [(''success'', JBool False),
                 (''error'', JStr ''Please provide email and password'')]\<rparr>, [])"
  using assms
  by (auto simp: falsy_def login_def missing_credentials_def split: option.splits)

text \<open>
  Claim C6, witness: a known email without password.
\<close>

theorem login_missing_field_400_witness:
  "falsy (login_password \<lparr>login_email = Some ''a@x.com'', login_password = None\<rparr>)
   \<and> login (mem_store plain_config) tag_signer \<lparr>login_email = Some ''a@x.com'', login_password = None\<rparr> [ana] =
       (Respond \<lparr>status = 400, body = JObj [(''success'', JBool False),
                    (''error'', JStr ''Please provide email and password'')]\<rparr>, [])"
proof -
  have f: "falsy (login_password \<lparr>login_email = Some ''a@x.com'', login_password = None\<rparr>)"
    by (simp add: falsy_def)
  then have "falsy (login_email \<lparr>login_email = Some ''a@x.com'', login_password = None\<rparr>)
      \<or> falsy (login_password \<lparr>login_email = Some ''a@x.com'', login_password = None\<rparr>)"
    by blast
  from login_missing_field_400 [OF this, of "mem_store plain_config" tag_signer "[ana]"] f
  show ?thesis by blast
qed

text \<open>
  Claim C8, counterexample to the claim as first stated: the email of the request is
  already present in the store; register forwards the Conflict to the top-level error
  handler, and the response has status 500, which is not a 4xx status.
\<close>

theorem duplicate_email_answered_500:
  "email_present plain_config [ana] ''a@x.com''
   \<and> reg_email duplicate_signup = Some ''a@x.com''
   \<and> fst (fst (register (mem_store plain_config) tag_signer duplicate_signup [ana])) = Next Conflict
   \<and> status (settle (fst (fst (register (mem_store plain_config) tag_signer duplicate_signup [ana])))) = 500"
  by (simp add: email_present_def plain_config_def ana_def duplicate_signup_def register_def
      mem_store_def mem_create_def settle_def error_handler_def)

text \<open>
  The modelled store refuses to create a user whose email is present, and stays as it is.
\<close>

lemma mem_create_present:
  assumes "reg_email req = Some e" and "email_present cfg db e"
  shows "create (mem_store cfg) req db =
    (Inl (if reg_name req = None \<or> reg_password req = None then Failure ''ValidationError'' else Conflict), db)"
  using assms by (auto simp: mem_store_def mem_create_def split: option.splits)

text \<open>
  Claim C8, as amended. For every registration request whose email is already present in
  the Credential Store, register fails: the error of the store (Conflict when name and
  password are given) is forwarded to the top-level error handler, which answers HTTP 500
  with \<^verbatim>\<open>Internal server error.\<close>; no new User is created, and the
  failed creation is the only operation on the store.
\<close>

theorem duplicate_email_forwarded:
  assumes "reg_email req = Some e" and "email_present cfg db e"
  shows "snd (register (mem_store cfg) sign req db) = db
    \<and> fst (fst (register (mem_store cfg) sign req db)) =
        Next (if reg_name req = None \<or> reg_password req = None
              then Failure ''ValidationError'' else Conflict)
    \<and> settle (fst (fst (register (mem_store cfg) sign req db))) =
        \<lparr>status = 500, body = JObj [(''error'', JStr ''Internal server error.'')]\<rparr>
    \<and> snd (fst (register (mem_store cfg) sign req db)) = [Create req]"
  by (simp add: register_def mem_create_present [OF assms] settle_def error_handler_def)

text \<open>
  Claim C8, witness: a second registration with the email of Ana.
\<close>

theorem duplicate_email_forwarded_witness:
  "reg_email duplicate_signup = Some ''a@x.com'' \<and> email_present plain_config [ana] ''a@x.com''
   \<and> register (mem_store plain_config) tag_signer duplicate_signup [ana] =
       ((Next Conflict, [Create duplicate_signup]), [ana])"
proof -
  have e: "reg_email duplicate_signup = Some ''a@x.com''" by (simp add: duplicate_signup_def)
  have p: "email_present plain_config [ana] ''a@x.com''"
    by (simp add: email_present_def plain_config_def ana_def)
  have f: "reg_name duplicate_signup \<noteq> None \<and> reg_password duplicate_signup \<noteq> None"
    by (simp add: duplicate_signup_def)
  from duplicate_email_forwarded [OF e p, of tag_signer] f
  have "snd (register (mem_store plain_config) tag_signer duplicate_signup [ana]) = [ana]"
    and "fst (fst (register (mem_store plain_config) tag_signer duplicate_signup [ana])) = Next Conflict"
    and "snd (fst (register (mem_store plain_config) tag_signer duplicate_signup [ana])) = [Create duplicate_signup]"
    by simp_all
  then show ?thesis using e p by (simp add: prod_eq_iff)
qed

text \<open>
  The gate rejects a missing or invalid token before any lookup.
\<close>

lemma protect_invalid_token:
  assumes "bearer = None \<or> (\<exists>t. bearer = Some t \<and> verify t = None)"
  shows "protect S verify bearer db = (Reject Unauthenticated, [])"
  using assms by (auto simp: protect_def)

text \<open>
  The gate rejects a valid token whose subject resolves to no user.
\<close>

lemma protect_unresolved_subject:
  assumes "verify t = Some subject" and "findById S subject db = Inr None"
  shows "protect S verify (Some t) db = (Reject NotFound, [FindById subject])"
  using assms by (simp add: protect_def)

text \<open>
  The gate lets a valid token of a known user pass, with the resolved user.
\<close>

lemma protect_resolved_subject:
  assumes "verify t = Some subject" and "findById S subject db = Inr (Some u)"
  shows "protect S verify (Some t) db = (Pass u, [FindById subject])"
  using assms by (simp add: protect_def)

text \<open>
  The user found for an identifier has that identifier.
\<close>

lemma find_by_id_holds: "find (\<lambda>u. user_id u = i) db = Some u \<Longrightarrow> user_id u = i"
  by (induction db) (auto split: if_splits)

text \<open>
  Behind the gate, getMe looks the resolved user up again and sends the public document.
\<close>

lemma me_route_resolved:
  assumes "verify t = Some subject" and "find (\<lambda>u. user_id u = subject) db = Some u"
  shows "fst (me_route (mem_store cfg) verify (Some t) db) =
    Handled (Respond \<lparr>status = 200,
                      body = JObj [(''success'', JBool True), (''data'', doc_json (public_doc u))]\<rparr>)"
proof -
  have look: "findById (mem_store cfg) subject db = Inr (Some (public_doc u))"
    using assms(2) by (simp add: mem_findById_public)
  have same: "doc_id (public_doc u) = subject"
    using find_by_id_holds [OF assms(2)] by (simp add: public_doc_def)
  have gate: "protect (mem_store cfg) verify (Some t) db = (Pass (public_doc u), [FindById subject])"
    using protect_resolved_subject [of verify t subject "mem_store cfg" db "public_doc u"] assms(1) look
    by simp
  show ?thesis
    by (simp add: me_route_def gate getMe_def same look)
qed

text \<open>
  Claim C7. For every get-current-user request on the modelled store: if the bearer token
  is missing or invalid the request fails with Unauthenticated, whose status is 401; if the
  token is valid but its subject id resolves to no User, the request fails with NotFound;
  and if the subject resolves to a User, the response is 200 with the record of that User,
  identifier, name and email, without the secret.
\<close>

theorem me_route_identifies_user:
  "(bearer = None \<or> (\<exists>t. bearer = Some t \<and> verify t = None) \<longrightarrow>
      fst (me_route (mem_store cfg) verify bearer db) = Denied Unauthenticated
      \<and> failure_status Unauthenticated = Some 401)
   \<and> (\<forall>t subject. bearer = Some t \<and> verify t = Some subject
        \<and> find (\<lambda>u. user_id u = subject) db = None \<longrightarrow>
      fst (me_route (mem_store cfg) verify bearer db) = Denied NotFound)
   \<and> (\<forall>t subject u. bearer = Some t \<and> verify t = Some subject
        \<and> find (\<lambda>u. user_id u = subject) db = Some u \<longrightarrow>
      fst (me_route (mem_store cfg) verify bearer db) =
        Handled (Respond \<lparr>status = 200,
                          body = JObj [(''success'', JBool True),
                                       (''data'', JObj [(''_id'', JStr (user_id u)),
                                                        (''name'', JStr (user_name u)),
                                                        (''email'', JStr (user_email u))])]\<rparr>))"
proof (intro conjI impI allI)
  assume "bearer = None \<or> (\<exists>t. bearer = Some t \<and> verify t = None)"
  then show "fst (me_route (mem_store cfg) verify bearer db) = Denied Unauthenticated"
    using protect_invalid_token [of bearer verify "mem_store cfg" db]
    by (simp add: me_route_def)
next
  show "failure_status Unauthenticated = Some 401"
    by (simp add: failure_status_def)
next
  fix t subject
  assume "bearer = Some t \<and> verify t = Some subject \<and> find (\<lambda>u. user_id u = subject) db = None"
  then show "fst (me_route (mem_store cfg) verify bearer db) = Denied NotFound"
    using protect_unresolved_subject [of verify t subject "mem_store cfg" db]
    by (simp add: me_route_def mem_findById_public)
next
  fix t subject u
  assume "bearer = Some t \<and> verify t = Some subject \<and> find (\<lambda>u. user_id u = subject) db = Some u"
  then show "fst (me_route (mem_store cfg) verify bearer db) =
        Handled (Respond \<lparr>status = 200,
                          body = JObj [(''success'', JBool True),
                                       (''data'', JObj [(''_id'', JStr (user_id u)),
                                                        (''name'', JStr (user_name u)),
                                                        (''email'', JStr (user_email u))])]\<rparr>)"
    using me_route_resolved [of verify t subject db u cfg]
    by (simp add: doc_json_def public_doc_def)
qed

text \<open>
  Claim C7, witness: a forged token, a valid token of a user that is gone, and a valid
  token of Ana.
\<close>

theorem me_route_identifies_user_witness:
  "tag_verifier ''forged'' = None
   \<and> fst (me_route (mem_store plain_config) tag_verifier (Some ''forged'') [ana]) = Denied Unauthenticated
   \<and> tag_verifier ''jwt:gone'' = Some ''gone''
   \<and> find (\<lambda>u. user_id u = ''gone'') [ana] = None
   \<and> fst (me_route (mem_store plain_config) tag_verifier (Some ''jwt:gone'') [ana]) = Denied NotFound
   \<and> tag_verifier ''jwt:u'' = Some ''u''
   \<and> find (\<lambda>u. user_id u = ''u'') [ana] = Some ana
   \<and> fst (me_route (mem_store plain_config) tag_verifier (Some ''jwt:u'') [ana]) =
       Handled (Respond \<lparr>status = 200,
                         body = JObj [(''success'', JBool True),
                                      (''data'', JObj [(''_id'', JStr ''u''), (''name'', JStr ''Ana''),
                                                       (''email'', JStr ''a@x.com'')])]\<rparr>)"
proof -
  have v1: "tag_verifier ''forged'' = None"
    and v2: "tag_verifier ''jwt:gone'' = Some ''gone''"
    and v3: "tag_verifier ''jwt:u'' = Some ''u''"
    by (simp_all add: tag_verifier_def)
  have f2: "find (\<lambda>u. user_id u = ''gone'') [ana] = None"
    and f3: "find (\<lambda>u. user_id u = ''u'') [ana] = Some ana"
    by (simp_all add: ana_def)
  have r1: "fst (me_route (mem_store plain_config) tag_verifier (Some ''forged'') [ana]) = Denied Unauthenticated"
    using me_route_identifies_user [of "Some ''forged''" tag_verifier plain_config "[ana]"] v1 by simp
  have r2: "fst (me_route (mem_store plain_config) tag_verifier (Some ''jwt:gone'') [ana]) = Denied NotFound"
    using me_route_identifies_user [of "Some ''jwt:gone''" tag_verifier plain_config "[ana]"] v2 f2 by simp
  have r3: "fst (me_route (mem_store plain_config) tag_verifier (Some ''jwt:u'') [ana]) =
       Handled (Respond \<lparr>status = 200,
                         body = JObj [(''success'', JBool True),
                                      (''data'', JObj [(''_id'', JStr (user_id ana)),
                                                       (''name'', JStr (user_name ana)),
                                                       (''email'', JStr (user_email ana))])]\<rparr>)"
    using me_route_identifies_user [of "Some ''jwt:u''" tag_verifier plain_config "[ana]"] v3 f3 by simp
  show ?thesis
    using v1 v2 v3 f2 f3 r1 r2 r3 by (simp add: ana_def)
qed

text \<open>
  The modelled store creates the user when the three fields are given and the email is
  fresh.
\<close>

lemma mem_create_fresh:
  assumes "reg_name req = Some n" and "reg_email req = Some e" and "reg_password req = Some p"
    and "\<not> email_present cfg db e"
  shows "create (mem_store cfg) req db =
    (Inr (full_doc \<lparr>user_id = next_id cfg db, user_name = n, user_email = normalize cfg e,
                    user_secret = hash_secret cfg p\<rparr>),
     db @ [\<lparr>user_id = next_id cfg db, user_name = n, user_email = normalize cfg e,
            user_secret = hash_secret cfg p\<rparr>])"
  using assms by (simp add: mem_store_def mem_create_def Let_def)

text \<open>
  When the store has created the user and the token is signed, register answers 201.
\<close>

lemma register_created:
  assumes "create S req db = (Inr u, db')" and "sign (JObj [(''id'', JStr (doc_id u))]) = Inr token"
  shows "register S sign req db =
    ((Respond \<lparr>status = 201, body = session_body token u\<rparr>, [Create req]), db')"
  using assms by (simp add: register_def)

text \<open>
  Claim C9. For every successful registration (the store has created the User and the token
  is signed), the response is HTTP 201 with \<^verbatim>\<open>{success: true, token, data:
  {id, name, email}}\<close>, where the token is the signature of the payload whose id
  claim is the identifier of the new User, the same identifier that data.id carries. No
  response body of register or login has a password field, and none of get-current-user has
  one when the lookup of the store leaves the secret out, as it does by default.
\<close>

theorem register_success_201:
  assumes "create S req db = (Inr u, db')"
    and "sign (JObj [(''id'', JStr (doc_id u))]) = Inr token"
  shows "register S sign req db =
      ((Respond \<lparr>status = 201,
                body = JObj [(''success'', JBool True),
                             (''token'', JStr token),
                             (''data'', JObj [(''id'', JStr (doc_id u)),
                                              (''name'', JStr (doc_name u)),
                                              (''email'', JStr (doc_email u))])]\<rparr>,
        [Create req]), db')
    \<and> ''password'' \<notin> set (keys_of (body (settle (fst (fst (register S sign' req' db1))))))
    \<and> ''password'' \<notin> set (keys_of (body (settle (fst (login S sign' lreq db1)))))
    \<and> ((\<forall>ru d. req_user = Some ru \<and> findById S (doc_id ru) db1 = Inr (Some d) \<longrightarrow> doc_password d = None)
         \<longrightarrow> ''password'' \<notin> set (keys_of (body (settle (fst (getMe S req_user db1))))))"
proof -
  have created: "register S sign req db =
      ((Respond \<lparr>status = 201,
                body = JObj [(''success'', JBool True),
                             (''token'', JStr token),
                             (''data'', JObj [(''id'', JStr (doc_id u)),
                                              (''name'', JStr (doc_name u)),
                                              (''email'', JStr (doc_email u))])]\<rparr>,
        [Create req]), db')"
    using register_created [where sign = sign, OF assms] by (simp only: session_body_def)
  have current: "(\<forall>ru d. req_user = Some ru \<and> findById S (doc_id ru) db1 = Inr (Some d) \<longrightarrow> doc_password d = None)
         \<longrightarrow> ''password'' \<notin> set (keys_of (body (settle (fst (getMe S req_user db1)))))"
    using getMe_no_password [of req_user S db1] by (rule impI)
  from created register_no_password [of S sign' req' db1] login_no_password [of S sign' lreq db1] current
  show ?thesis by (intro conjI)
qed

text \<open>
  Claim C9, witness: Bob registers with a fresh email in a store that holds Ana; Ana asks
  for her own record.
\<close>

theorem register_success_201_witness:
  "create (mem_store plain_config) fresh_signup [ana] =
     (Inr (full_doc \<lparr>user_id = ''ui'', user_name = ''Bob'', user_email = ''b@x.com'',
                     user_secret = ''#hunter22''\<rparr>),
      [ana, \<lparr>user_id = ''ui'', user_name = ''Bob'', user_email = ''b@x.com'',
              user_secret = ''#hunter22''\<rparr>])
   \<and> tag_signer (JObj [(''id'', JStr ''ui'')]) = Inr ''jwt:ui''
   \<and> register (mem_store plain_config) tag_signer fresh_signup [ana] =
       ((Respond \<lparr>status = 201,
                 body = JObj [(''success'', JBool True),
                              (''token'', JStr ''jwt:ui''),
                              (''data'', JObj [(''id'', JStr ''ui''),
                                               (''name'', JStr ''Bob''),
                                               (''email'', JStr ''b@x.com'')])]\<rparr>,
         [Create fresh_signup]),
        [ana, \<lparr>user_id = ''ui'', user_name = ''Bob'', user_email = ''b@x.com'',
                user_secret = ''#hunter22''\<rparr>])
   \<and> ''password'' \<notin> set (keys_of (body (settle (fst
          (getMe (mem_store plain_config) (Some (public_doc ana)) [ana])))))"
proof -
  let ?bob = "\<lparr>user_id = ''ui'', user_name = ''Bob'', user_email = ''b@x.com'',
              user_secret = ''#hunter22''\<rparr>"
  have n: "reg_name fresh_signup = Some ''Bob''" and e: "reg_email fresh_signup = Some ''b@x.com''"
    and p: "reg_password fresh_signup = Some ''hunter22''"
    by (simp_all add: fresh_signup_def)
  have fresh: "\<not> email_present plain_config [ana] ''b@x.com''"
    by (simp add: email_present_def plain_config_def ana_def)
  have made: "create (mem_store plain_config) fresh_signup [ana] = (Inr (full_doc ?bob), [ana, ?bob])"
    using mem_create_fresh [OF n e p fresh] by (simp add: plain_config_def)
  have tok: "tag_signer (JObj [(''id'', JStr (doc_id (full_doc ?bob)))]) = Inr ''jwt:ui''"
    by (simp add: tag_signer_def full_doc_def)
  have unselected: "\<forall>ru d. Some (public_doc ana) = Some ru
      \<and> findById (mem_store plain_config) (doc_id ru) [ana] = Inr (Some d) \<longrightarrow> doc_password d = None"
    by (auto simp: mem_findById_public public_doc_def split: if_splits)
  note run = register_success_201 [where sign = tag_signer and S = "mem_store plain_config"
      and req_user = "Some (public_doc ana)" and ?db1.0 = "[ana]"
      and sign' = tag_signer and req' = fresh_signup and lreq = "ana_login []", OF made tok]
  have r: "register (mem_store plain_config) tag_signer fresh_signup [ana] =
       ((Respond \<lparr>status = 201,
                 body = JObj [(''success'', JBool True),
                              (''token'', JStr ''jwt:ui''),
                              (''data'', JObj [(''id'', JStr ''ui''),
                                               (''name'', JStr ''Bob''),
                                               (''email'', JStr ''b@x.com'')])]\<rparr>,
         [Create fresh_signup]), [ana, ?bob])"
    using run [THEN conjunct1] by (simp add: full_doc_def)
  have g: "''password'' \<notin> set (keys_of (body (settle (fst
          (getMe (mem_store plain_config) (Some (public_doc ana)) [ana])))))"
    using run [THEN conjunct2, THEN conjunct2, THEN conjunct2] unselected by blast
  show ?thesis
    using made tok r g by (simp add: full_doc_def)
qed

end
